theory Spec2Isabelle
  imports Main "HOL-Library.Monad_Syntax"
begin

section \<open>Go strings and runes\<close>

text \<open>
  A Go \<^verbatim>\<open>string\<close> is a sequence of bytes; \<^typ>\<open>string\<close> (a list of 8-bit characters)
  models it, so \<^term>\<open>length s\<close> is Go's \<^verbatim>\<open>len(s)\<close>. A \<^verbatim>\<open>for _, char := range s\<close> loop
  decodes UTF-8: each step yields one code point and consumes one to four bytes; a byte
  that starts no well-formed encoding yields \<^verbatim>\<open>utf8.RuneError\<close> (U+FFFD) and consumes one
  byte. \<open>decodeRune\<close> follows \<^verbatim>\<open>utf8.DecodeRuneInString\<close>: the first byte selects the
  length and the accepted range of the second byte.
\<close>

definition RuneError :: nat where
  "RuneError = 65533"

fun decodeRune :: "string \<Rightarrow> nat \<times> nat" where
  "decodeRune [] = (RuneError, 0)"
| "decodeRune (c0 # rest) =
    (let s0 = (of_char c0 :: nat) in
     if s0 < 128 then (s0, 1)
     else if s0 < 194 \<or> 244 < s0 then (RuneError, 1)
     else
       let sz = (if s0 < 224 then 2 else if s0 < 240 then 3 else (4::nat));
           lo = (if s0 = 224 then 160 else if s0 = 240 then 144 else (128::nat));
           hi = (if s0 = 237 then 159 else if s0 = 244 then 143 else (191::nat))
       in if Suc (length rest) < sz then (RuneError, 1)
          else
            let s1 = (of_char (rest ! 0) :: nat) in
            if s1 < lo \<or> hi < s1 then (RuneError, 1)
            else if sz \<le> 2 then ((s0 mod 32) * 64 + s1 mod 64, 2)
            else
              let s2 = (of_char (rest ! 1) :: nat) in
              if s2 < 128 \<or> 191 < s2 then (RuneError, 1)
              else if sz \<le> 3
              then ((s0 mod 16) * 4096 + (s1 mod 64) * 64 + s2 mod 64, 3)
              else
                let s3 = (of_char (rest ! 2) :: nat) in
                if s3 < 128 \<or> 191 < s3 then (RuneError, 1)
                else ((s0 mod 8) * 262144 + (s1 mod 64) * 4096 + (s2 mod 64) * 64
                        + s3 mod 64, 4))"

text \<open>
  The code points a \<^verbatim>\<open>range\<close> loop visits, in order. On a non-empty string the decoder
  consumes at least one byte, so dropping \<open>size - 1\<close> bytes of the tail is dropping \<open>size\<close>
  bytes of the string.
\<close>

fun runes :: "string \<Rightarrow> nat list" where
  "runes [] = []"
| "runes (c # cs) =
     fst (decodeRune (c # cs)) # runes (drop (snd (decodeRune (c # cs)) - 1) cs)"

text \<open>
  \<^verbatim>\<open>unicode.IsUpper\<close>, \<^verbatim>\<open>IsLower\<close>, \<^verbatim>\<open>IsNumber\<close>, \<^verbatim>\<open>IsPunct\<close> and \<^verbatim>\<open>IsSymbol\<close> belong to Go's
  standard library. On ASCII their values are written out (letters, digits, and the
  general categories P and S of the remaining printable characters); beyond ASCII the
  range tables of the library are a parameter.
\<close>

record unicode_tables =
  Upper :: "nat \<Rightarrow> bool"
  Lower :: "nat \<Rightarrow> bool"
  Number :: "nat \<Rightarrow> bool"
  Punct :: "nat \<Rightarrow> bool"
  Symbol :: "nat \<Rightarrow> bool"

definition IsUpper :: "unicode_tables \<Rightarrow> nat \<Rightarrow> bool" where
  "IsUpper U r = (if r < 128 then 65 \<le> r \<and> r \<le> 90 else Upper U r)"

definition IsLower :: "unicode_tables \<Rightarrow> nat \<Rightarrow> bool" where
  "IsLower U r = (if r < 128 then 97 \<le> r \<and> r \<le> 122 else Lower U r)"

definition IsNumber :: "unicode_tables \<Rightarrow> nat \<Rightarrow> bool" where
  "IsNumber U r = (if r < 128 then 48 \<le> r \<and> r \<le> 57 else Number U r)"

definition IsPunct :: "unicode_tables \<Rightarrow> nat \<Rightarrow> bool" where
  "IsPunct U r =
     (if r < 128
      then r \<in> set [33, 34, 35, 37, 38, 39, 40, 41, 42, 44, 45, 46, 47, 58, 59, 63, 64,
                      91, 92, 93, 95, 123, 125]
      else Punct U r)"

definition IsSymbol :: "unicode_tables \<Rightarrow> nat \<Rightarrow> bool" where
  "IsSymbol U r =
     (if r < 128 then r \<in> set [36, 43, 60, 61, 62, 94, 96, 124, 126] else Symbol U r)"

text \<open>Tables that classify nothing beyond ASCII, for evaluating on concrete passwords.\<close>

definition ascii_tables :: unicode_tables where
  "ascii_tables =
     \<lparr>Upper = (\<lambda>r. False), Lower = (\<lambda>r. False), Number = (\<lambda>r. False),
      Punct = (\<lambda>r. False), Symbol = (\<lambda>r. False)\<rparr>"

text \<open>
  The general categories of Unicode are disjoint; a set of range tables that respects
  this satisfies \<open>classes_disjoint\<close>.
\<close>

definition classes_disjoint :: "unicode_tables \<Rightarrow> bool" where
  "classes_disjoint U \<longleftrightarrow>
     (\<forall>r. \<not> (IsUpper U r \<and> IsLower U r)
        \<and> \<not> (IsNumber U r \<and> (IsUpper U r \<or> IsLower U r))
        \<and> \<not> ((IsPunct U r \<or> IsSymbol U r)
              \<and> (IsUpper U r \<or> IsLower U r \<or> IsNumber U r)))"


section \<open>Password policy (pkg/auth/password.go)\<close>

record char_flags =
  hasUpper :: bool
  hasLower :: bool
  hasNumber :: bool
  hasSpecial :: bool

definition no_flags :: char_flags where
  "no_flags = \<lparr>hasUpper = False, hasLower = False, hasNumber = False, hasSpecial = False\<rparr>"

text \<open>One iteration of the loop: the \<^verbatim>\<open>switch\<close> takes the first case that holds.\<close>

definition classify_char :: "unicode_tables \<Rightarrow> char_flags \<Rightarrow> nat \<Rightarrow> char_flags" where
  "classify_char U fl r =
     (if IsUpper U r then fl\<lparr>hasUpper := True\<rparr>
      else if IsLower U r then fl\<lparr>hasLower := True\<rparr>
      else if IsNumber U r then fl\<lparr>hasNumber := True\<rparr>
      else if IsPunct U r \<or> IsSymbol U r then fl\<lparr>hasSpecial := True\<rparr>
      else fl)"

definition scan_password :: "unicode_tables \<Rightarrow> string \<Rightarrow> char_flags" where
  "scan_password U password = foldl (classify_char U) no_flags (runes password)"

text \<open>
  \<^verbatim>\<open>validatePasswordStrength\<close> returns Go's \<^verbatim>\<open>error\<close>: \<open>None\<close> is \<^verbatim>\<open>nil\<close>, \<open>Some msg\<close> is
  \<^verbatim>\<open>errors.New(msg)\<close>. Every failed check returns at once.
\<close>

definition validatePasswordStrength :: "unicode_tables \<Rightarrow> string \<Rightarrow> string option" where
  "validatePasswordStrength U password =
     (if length password < 8 then Some ''password must be at least 8 characters long''
      else if length password > 128 then Some ''password must be less than 128 characters''
      else
        let fl = scan_password U password in
        if \<not> hasUpper fl then Some ''password must contain at least one uppercase letter''
        else if \<not> hasLower fl
        then Some ''password must contain at least one lowercase letter''
        else if \<not> hasNumber fl then Some ''password must contain at least one number''
        else if \<not> hasSpecial fl
        then Some ''password must contain at least one special character''
        else None)"

definition IsPasswordValid :: "unicode_tables \<Rightarrow> string \<Rightarrow> string option" where
  "IsPasswordValid U password = validatePasswordStrength U password"

definition GetPasswordStrength :: "unicode_tables \<Rightarrow> string \<Rightarrow> int" where
  "GetPasswordStrength U password =
     (let score = 0;
          score = (if length password \<ge> 8 then score + 20 else score);
          score = (if length password \<ge> 12 then score + 10 else score);
          score = (if length password \<ge> 16 then score + 10 else score);
          fl = scan_password U password;
          score = (if hasUpper fl then score + 15 else score);
          score = (if hasLower fl then score + 15 else score);
          score = (if hasNumber fl then score + 15 else score);
          score = (if hasSpecial fl then score + 15 else score);
          score = (if hasUpper fl \<and> hasLower fl then score + 10 else score)
      in score)"

definition GetPasswordStrengthLabel :: "unicode_tables \<Rightarrow> string \<Rightarrow> string" where
  "GetPasswordStrengthLabel U password =
     (let score = GetPasswordStrength U password in
      if score \<ge> 80 then ''Very Strong''
      else if score \<ge> 60 then ''Strong''
      else if score \<ge> 40 then ''Medium''
      else if score \<ge> 20 then ''Weak''
      else ''Very Weak'')"

text \<open>
  The specification's reading of strength validation, for comparison with the code: every
  rule is checked and every violated rule contributes one entry, in the order of the rules.
\<close>

definition spec_violations :: "unicode_tables \<Rightarrow> string \<Rightarrow> string list" where
  "spec_violations U password =
     (if length password < 8 then [''password must be at least 8 characters long''] else [])
     @ (if length password > 128 then [''password must be less than 128 characters''] else [])
     @ (if \<exists>r \<in> set (runes password). IsUpper U r then []
        else [''password must contain at least one uppercase letter''])
     @ (if \<exists>r \<in> set (runes password). IsLower U r then []
        else [''password must contain at least one lowercase letter''])
     @ (if \<exists>r \<in> set (runes password). IsNumber U r then []
        else [''password must contain at least one number''])
     @ (if \<exists>r \<in> set (runes password). IsPunct U r \<or> IsSymbol U r then []
        else [''password must contain at least one special character''])"

text \<open>The entries a returned \<^verbatim>\<open>error\<close> reports: none for \<^verbatim>\<open>nil\<close>, one otherwise.\<close>

definition error_entries :: "string option \<Rightarrow> string list" where
  "error_entries e = (case e of None \<Rightarrow> [] | Some msg \<Rightarrow> [msg])"


section \<open>Time, identifiers and claims (pkg/auth/jwt.go)\<close>

text \<open>
  A \<^verbatim>\<open>time.Time\<close> is an instant, counted here in nanoseconds since the Unix epoch; a
  \<^verbatim>\<open>time.Duration\<close> is a number of nanoseconds. \<^verbatim>\<open>jwt.NewNumericDate\<close> truncates the instant
  to \<^verbatim>\<open>jwt.TimePrecision\<close>, one second. Go rounds down to a multiple of the duration
  counted from its zero time, which lies a whole number of seconds before the epoch: for
  one second, the only duration truncated to here, both origins give the same instant.
\<close>

type_synonym Time = int

definition Second :: int where
  "Second = 1000000000"

definition Hour :: int where
  "Hour = 3600 * Second"

definition Time_Add :: "Time \<Rightarrow> int \<Rightarrow> Time" where
  "Time_Add t d = t + d"

definition Time_Before :: "Time \<Rightarrow> Time \<Rightarrow> bool" where
  "Time_Before t u \<longleftrightarrow> t < u"

definition Time_Truncate :: "Time \<Rightarrow> int \<Rightarrow> Time" where
  "Time_Truncate t d = (if d \<le> 0 then t else t - t mod d)"

definition TimePrecision :: int where
  "TimePrecision = Second"

definition NewNumericDate :: "Time \<Rightarrow> Time" where
  "NewNumericDate t = Time_Truncate t TimePrecision"

text \<open>
  A \<^verbatim>\<open>uuid.UUID\<close> is an array of 16 bytes; \<^verbatim>\<open>String\<close> prints it in lower-case hexadecimal,
  grouped 8-4-4-4-12.
\<close>

type_synonym UUID = string

definition hex_encode :: "string \<Rightarrow> string" where
  "hex_encode bs =
     concat (map (\<lambda>c. [''0123456789abcdef'' ! ((of_char c :: nat) div 16),
                        ''0123456789abcdef'' ! ((of_char c :: nat) mod 16)]) bs)"

definition UUID_String :: "UUID \<Rightarrow> string" where
  "UUID_String u =
     hex_encode (take 4 u) @ ''-'' @ hex_encode (take 2 (drop 4 u)) @ ''-''
       @ hex_encode (take 2 (drop 6 u)) @ ''-'' @ hex_encode (take 2 (drop 8 u)) @ ''-''
       @ hex_encode (drop 10 u)"

text \<open>
  \<^verbatim>\<open>Claims\<close> embeds \<^verbatim>\<open>jwt.RegisteredClaims\<close>; the three dates are pointers there, \<open>None\<close>
  is \<^verbatim>\<open>nil\<close>. A field a struct literal leaves out has Go's zero value.
\<close>

record RegisteredClaims =
  Issuer :: string
  Subject :: string
  Audience :: "string list"
  ExpiresAt :: "Time option"
  NotBefore :: "Time option"
  IssuedAt :: "Time option"
  ID :: string

record Claims = RegisteredClaims +
  UserID :: UUID
  Email :: string

record JWTManager =
  secretKey :: string
  issuer :: string

text \<open>\<open>jwt_secret\<close> is the value of the environment variable \<^verbatim>\<open>JWT_SECRET\<close>.\<close>

definition NewJWTManager :: "string \<Rightarrow> JWTManager" where
  "NewJWTManager jwt_secret =
     (let secret = (if jwt_secret = []
                    then ''your-super-secret-jwt-key-change-in-production''
                    else jwt_secret)
      in \<lparr>secretKey = secret, issuer = ''tgfinance''\<rparr>)"

text \<open>The claims that \<^verbatim>\<open>GenerateToken\<close> and \<^verbatim>\<open>GenerateRefreshToken\<close> build before signing.\<close>

definition GenerateToken_claims :: "JWTManager \<Rightarrow> Time \<Rightarrow> UUID \<Rightarrow> string \<Rightarrow> Claims" where
  "GenerateToken_claims j now userID email =
     (let expiresAt = Time_Add now (24 * Hour)
      in \<lparr>Issuer = issuer j, Subject = UUID_String userID, Audience = [],
          ExpiresAt = Some (NewNumericDate expiresAt),
          NotBefore = Some (NewNumericDate now),
          IssuedAt = Some (NewNumericDate now), ID = [],
          UserID = userID, Email = email\<rparr>)"

definition GenerateRefreshToken_claims :: "JWTManager \<Rightarrow> Time \<Rightarrow> UUID \<Rightarrow> Claims" where
  "GenerateRefreshToken_claims j now userID =
     (let expiresAt = Time_Add now (7 * 24 * Hour)
      in \<lparr>Issuer = issuer j, Subject = UUID_String userID, Audience = [],
          ExpiresAt = Some (NewNumericDate expiresAt),
          NotBefore = Some (NewNumericDate now),
          IssuedAt = Some (NewNumericDate now), ID = [],
          UserID = userID, Email = []\<rparr>)"


text \<open>
  The claims segment of a token is the JSON object that \<^verbatim>\<open>encoding/json\<close> makes of a \<^verbatim>\<open>Claims\<close>
  value: one member for each field, named by the field's tag, the fields of \<^verbatim>\<open>Claims\<close> first
  and the promoted fields of \<^verbatim>\<open>jwt.RegisteredClaims\<close> after them. A field tagged
  \<^verbatim>\<open>omitempty\<close> is left out when it is empty (an empty string or slice, a nil pointer); a field
  without that option is always written. \<^verbatim>\<open>UserID\<close> is tagged \<^verbatim>\<open>json:"user_id"\<close> and \<^verbatim>\<open>Email\<close>
  \<^verbatim>\<open>json:"email"\<close>, both without \<^verbatim>\<open>omitempty\<close>; the seven registered claims all have it. A UUID
  is written as its printed form, a date as a number.
\<close>

datatype json = JString string | JNumericDate Time | JArray "json list"

definition omitempty_string :: "string \<Rightarrow> string \<Rightarrow> (string \<times> json) list" where
  "omitempty_string key v = (if v = [] then [] else [(key, JString v)])"

definition omitempty_date :: "string \<Rightarrow> Time option \<Rightarrow> (string \<times> json) list" where
  "omitempty_date key d = (case d of None \<Rightarrow> [] | Some t \<Rightarrow> [(key, JNumericDate t)])"

definition omitempty_strings :: "string \<Rightarrow> string list \<Rightarrow> (string \<times> json) list" where
  "omitempty_strings key vs = (if vs = [] then [] else [(key, JArray (map JString vs))])"

definition Claims_json_members :: "Claims \<Rightarrow> (string \<times> json) list" where
  "Claims_json_members c =
     [(''user_id'', JString (UUID_String (UserID c))),
      (''email'', JString (Email c))]
     @ omitempty_string ''iss'' (Issuer c)
     @ omitempty_string ''sub'' (Subject c)
     @ omitempty_strings ''aud'' (Audience c)
     @ omitempty_date ''exp'' (ExpiresAt c)
     @ omitempty_date ''nbf'' (NotBefore c)
     @ omitempty_date ''iat'' (IssuedAt c)
     @ omitempty_string ''jti'' (ID c)"

text \<open>The names of the claims a token with these claims carries.\<close>

definition claim_names :: "Claims \<Rightarrow> string list" where
  "claim_names c = map fst (Claims_json_members c)"


section \<open>The token library as the code uses it (golang-jwt/jwt v5)\<close>

text \<open>
  The library is not part of the repository. Its control flow is written out below
  (\<^verbatim>\<open>SignedString\<close>, \<^verbatim>\<open>ParseWithClaims\<close>, the default claims validator); its encoding and
  cryptographic primitives are a parameter: the base64url and JSON codecs of the three
  token segments and the keyed hash. Errors carry their message.
\<close>

datatype error = Error string

definition ErrTokenMalformed :: error where
  "ErrTokenMalformed = Error ''token is malformed''"

definition ErrTokenUnverifiable :: error where
  "ErrTokenUnverifiable = Error ''token is unverifiable''"

definition ErrTokenSignatureInvalid :: error where
  "ErrTokenSignatureInvalid = Error ''token signature is invalid''"

definition ErrTokenInvalidClaims :: error where
  "ErrTokenInvalidClaims = Error ''token has invalid claims''"

definition ErrInvalidKeyType :: error where
  "ErrInvalidKeyType = Error ''key is of invalid type''"

datatype SigningMethod =
    SigningMethodHMAC string
  | SigningMethodRSA string
  | SigningMethodRSAPSS string
  | SigningMethodECDSA string
  | SigningMethodEd25519
  | SigningMethodNone

definition Alg :: "SigningMethod \<Rightarrow> string" where
  "Alg m = (case m of
       SigningMethodHMAC a \<Rightarrow> a
     | SigningMethodRSA a \<Rightarrow> a
     | SigningMethodRSAPSS a \<Rightarrow> a
     | SigningMethodECDSA a \<Rightarrow> a
     | SigningMethodEd25519 \<Rightarrow> ''EdDSA''
     | SigningMethodNone \<Rightarrow> ''none'')"

definition SigningMethodHS256 :: SigningMethod where
  "SigningMethodHS256 = SigningMethodHMAC ''HS256''"

text \<open>The registry of signing methods: \<open>None\<close> for a name that is not registered.\<close>

definition GetSigningMethod :: "string \<Rightarrow> SigningMethod option" where
  "GetSigningMethod alg =
     (if alg \<in> set [''HS256'', ''HS384'', ''HS512''] then Some (SigningMethodHMAC alg)
      else if alg \<in> set [''RS256'', ''RS384'', ''RS512''] then Some (SigningMethodRSA alg)
      else if alg \<in> set [''PS256'', ''PS384'', ''PS512''] then Some (SigningMethodRSAPSS alg)
      else if alg \<in> set [''ES256'', ''ES384'', ''ES512''] then Some (SigningMethodECDSA alg)
      else if alg = ''EdDSA'' then Some SigningMethodEd25519
      else if alg = ''none'' then Some SigningMethodNone
      else None)"

text \<open>
  The primitives: \<open>EncodeHeader alg\<close> is the encoded header segment of a token signed
  with \<open>alg\<close>, \<open>EncodeClaims\<close> the encoded claims segment, \<open>EncodeSegment\<close> base64url of
  raw bytes. \<open>DecodeHeader\<close> is \<open>None\<close> on a malformed segment, \<open>Some None\<close> when the
  header has no string \<^verbatim>\<open>alg\<close>, and \<open>Some (Some alg)\<close> otherwise. \<open>HMAC alg key msg\<close> is the
  keyed hash.
\<close>

record jwt_codec =
  EncodeHeader :: "string \<Rightarrow> string"
  EncodeClaims :: "Claims \<Rightarrow> string"
  EncodeSegment :: "string \<Rightarrow> string"
  DecodeHeader :: "string \<Rightarrow> string option option"
  DecodeClaims :: "string \<Rightarrow> Claims option"
  DecodeSegment :: "string \<Rightarrow> string option"
  HMAC :: "string \<Rightarrow> string \<Rightarrow> string \<Rightarrow> string"

record Token =
  Token_Raw :: string
  Token_Method :: SigningMethod
  Token_Claims :: Claims
  Token_Signature :: string
  Token_Valid :: bool

definition NewWithClaims :: "SigningMethod \<Rightarrow> Claims \<Rightarrow> Token" where
  "NewWithClaims method claims =
     \<lparr>Token_Raw = [], Token_Method = method, Token_Claims = claims,
      Token_Signature = [], Token_Valid = False\<rparr>"

text \<open>
  Keys are byte slices throughout this program. Only the HMAC methods accept a byte slice;
  every other method fails on it with an invalid-key-type error.
\<close>

definition SigningMethod_Sign ::
    "jwt_codec \<Rightarrow> SigningMethod \<Rightarrow> string \<Rightarrow> string \<Rightarrow> error + string" where
  "SigningMethod_Sign lib m signingString key =
     (case m of
        SigningMethodHMAC a \<Rightarrow> Inr (HMAC lib a key signingString)
      | _ \<Rightarrow> Inl ErrInvalidKeyType)"

definition SigningMethod_Verify ::
    "jwt_codec \<Rightarrow> SigningMethod \<Rightarrow> string \<Rightarrow> string \<Rightarrow> string \<Rightarrow> error option" where
  "SigningMethod_Verify lib m signingString sig key =
     (case m of
        SigningMethodHMAC a \<Rightarrow>
          (if sig = HMAC lib a key signingString then None
           else Some (Error ''signature is invalid''))
      | _ \<Rightarrow> Some ErrInvalidKeyType)"

definition SigningString :: "jwt_codec \<Rightarrow> Token \<Rightarrow> string" where
  "SigningString lib t =
     EncodeHeader lib (Alg (Token_Method t)) @ ''.'' @ EncodeClaims lib (Token_Claims t)"

definition SignedString :: "jwt_codec \<Rightarrow> Token \<Rightarrow> string \<Rightarrow> error + string" where
  "SignedString lib t key =
     (let sstr = SigningString lib t in
      case SigningMethod_Sign lib (Token_Method t) sstr key of
        Inl err \<Rightarrow> Inl err
      | Inr sig \<Rightarrow> Inr (sstr @ ''.'' @ EncodeSegment lib sig))"

text \<open>\<^verbatim>\<open>strings.Cut\<close> with a one-byte separator; \<open>None\<close> when the separator is absent.\<close>

definition Cut :: "string \<Rightarrow> char \<Rightarrow> (string \<times> string) option" where
  "Cut s sep =
     (if sep \<in> set s
      then Some (takeWhile (\<lambda>c. c \<noteq> sep) s, tl (dropWhile (\<lambda>c. c \<noteq> sep) s))
      else None)"

text \<open>A token has exactly three segments, separated by two dots.\<close>

definition splitToken :: "string \<Rightarrow> (string \<times> string \<times> string) option" where
  "splitToken token =
     (case Cut token (CHR ''.'') of
        None \<Rightarrow> None
      | Some (header, remain) \<Rightarrow>
          (case Cut remain (CHR ''.'') of
             None \<Rightarrow> None
           | Some (claims, remain2) \<Rightarrow>
               (if CHR ''.'' \<in> set remain2 then None else Some (header, claims, remain2))))"

definition ParseUnverified ::
    "jwt_codec \<Rightarrow> string \<Rightarrow> error + (Token \<times> string \<times> string \<times> string)" where
  "ParseUnverified lib tokenString =
     (case splitToken tokenString of
        None \<Rightarrow> Inl ErrTokenMalformed
      | Some (h, c, s) \<Rightarrow>
          (case DecodeHeader lib h of
             None \<Rightarrow> Inl ErrTokenMalformed
           | Some alg_opt \<Rightarrow>
               (case DecodeClaims lib c of
                  None \<Rightarrow> Inl ErrTokenMalformed
                | Some claims \<Rightarrow>
                    (case alg_opt of
                       None \<Rightarrow> Inl ErrTokenUnverifiable
                     | Some alg \<Rightarrow>
                         (case GetSigningMethod alg of
                            None \<Rightarrow> Inl ErrTokenUnverifiable
                          | Some method \<Rightarrow>
                              Inr (\<lparr>Token_Raw = tokenString, Token_Method = method,
                                    Token_Claims = claims, Token_Signature = [],
                                    Token_Valid = False\<rparr>, h, c, s))))))"

text \<open>
  The default validator: an expiry that is present must lie after \<open>now\<close>, a not-before
  that is present must not lie after \<open>now\<close>; nothing else is checked.
\<close>

definition Validator_Validate :: "Time \<Rightarrow> Claims \<Rightarrow> error option" where
  "Validator_Validate now claims =
     (let exp_ok = (case ExpiresAt claims of None \<Rightarrow> True | Some e \<Rightarrow> Time_Before now e);
          nbf_ok = (case NotBefore claims of None \<Rightarrow> True | Some n \<Rightarrow> \<not> Time_Before now n)
      in if exp_ok \<and> nbf_ok then None else Some ErrTokenInvalidClaims)"

definition ParseWithClaims ::
    "jwt_codec \<Rightarrow> Time \<Rightarrow> string \<Rightarrow> (Token \<Rightarrow> error + string) \<Rightarrow> error + Token" where
  "ParseWithClaims lib now tokenString keyFunc =
     (case ParseUnverified lib tokenString of
        Inl err \<Rightarrow> Inl err
      | Inr (token, h, c, s) \<Rightarrow>
          (case DecodeSegment lib s of
             None \<Rightarrow> Inl ErrTokenMalformed
           | Some sig \<Rightarrow>
               (let token = token\<lparr>Token_Signature := sig\<rparr>;
                    text = h @ ''.'' @ c
                in case keyFunc token of
                     Inl err \<Rightarrow> Inl ErrTokenUnverifiable
                   | Inr key \<Rightarrow>
                       (case SigningMethod_Verify lib (Token_Method token) text sig key of
                          Some err \<Rightarrow> Inl ErrTokenSignatureInvalid
                        | None \<Rightarrow>
                            (case Validator_Validate now (Token_Claims token) of
                               Some err \<Rightarrow> Inl ErrTokenInvalidClaims
                             | None \<Rightarrow> Inr (token\<lparr>Token_Valid := True\<rparr>))))))"


section \<open>Issuing and validating tokens (pkg/auth/jwt.go)\<close>

text \<open>\<open>now\<close> is the reading of \<^verbatim>\<open>time.Now()\<close> when the function runs.\<close>

definition GenerateToken ::
    "jwt_codec \<Rightarrow> JWTManager \<Rightarrow> Time \<Rightarrow> UUID \<Rightarrow> string \<Rightarrow> error + string" where
  "GenerateToken lib j now userID email =
     (let claims = GenerateToken_claims j now userID email;
          token = NewWithClaims SigningMethodHS256 claims
      in SignedString lib token (secretKey j))"

definition GenerateRefreshToken ::
    "jwt_codec \<Rightarrow> JWTManager \<Rightarrow> Time \<Rightarrow> UUID \<Rightarrow> error + string" where
  "GenerateRefreshToken lib j now userID =
     (let claims = GenerateRefreshToken_claims j now userID;
          token = NewWithClaims SigningMethodHS256 claims
      in SignedString lib token (secretKey j))"

text \<open>The key function handed to the parser: only an HMAC method gets the key.\<close>

definition keyFunc :: "JWTManager \<Rightarrow> Token \<Rightarrow> error + string" where
  "keyFunc j token =
     (case Token_Method token of
        SigningMethodHMAC a \<Rightarrow> Inr (secretKey j)
      | _ \<Rightarrow> Inl (Error (''unexpected signing method: '' @ Alg (Token_Method token))))"

definition ValidateToken :: "jwt_codec \<Rightarrow> JWTManager \<Rightarrow> Time \<Rightarrow> string \<Rightarrow> error + Claims" where
  "ValidateToken lib j now tokenString =
     (case ParseWithClaims lib now tokenString (keyFunc j) of
        Inl err \<Rightarrow> Inl err
      | Inr token \<Rightarrow>
          (if Token_Valid token then Inr (Token_Claims token)
           else Inl (Error ''invalid token'')))"

definition ExtractUserIDFromToken ::
    "jwt_codec \<Rightarrow> JWTManager \<Rightarrow> Time \<Rightarrow> string \<Rightarrow> error + UUID" where
  "ExtractUserIDFromToken lib j now tokenString =
     (case ValidateToken lib j now tokenString of
        Inl err \<Rightarrow> Inl err
      | Inr claims \<Rightarrow> Inr (UserID claims))"

text \<open>The algorithm tag a token string carries in its header segment, if it has one.\<close>

definition alg_tag :: "jwt_codec \<Rightarrow> string \<Rightarrow> string option" where
  "alg_tag lib tokenString =
     (case splitToken tokenString of
        None \<Rightarrow> None
      | Some (h, c, s) \<Rightarrow> (case DecodeHeader lib h of Some (Some alg) \<Rightarrow> Some alg | _ \<Rightarrow> None))"

text \<open>
  What the codec has to get right for one token: the three segments contain no dot and
  decode to what was encoded.
\<close>

definition codec_roundtrip :: "jwt_codec \<Rightarrow> string \<Rightarrow> Claims \<Rightarrow> string \<Rightarrow> bool" where
  "codec_roundtrip lib alg claims sig \<longleftrightarrow>
     CHR ''.'' \<notin> set (EncodeHeader lib alg)
     \<and> CHR ''.'' \<notin> set (EncodeClaims lib claims)
     \<and> CHR ''.'' \<notin> set (EncodeSegment lib sig)
     \<and> DecodeHeader lib (EncodeHeader lib alg) = Some (Some alg)
     \<and> DecodeClaims lib (EncodeClaims lib claims) = Some claims
     \<and> DecodeSegment lib (EncodeSegment lib sig) = Some sig"

text \<open>
  A small codec for evaluating the model on concrete tokens: segments are written as
  they are, the claims segment \<^verbatim>\<open>claims\<close> stands for the claims \<open>c0\<close>, and the keyed hash
  is the key followed by the message with its dots replaced.
\<close>

definition test_codec :: "Claims \<Rightarrow> jwt_codec" where
  "test_codec c0 =
     \<lparr>EncodeHeader = (\<lambda>alg. alg),
      EncodeClaims = (\<lambda>c. ''claims''),
      EncodeSegment = (\<lambda>b. b),
      DecodeHeader = (\<lambda>s. if s = [] then None else Some (Some s)),
      DecodeClaims = (\<lambda>s. if s = ''claims'' then Some c0 else None),
      DecodeSegment = (\<lambda>s. Some s),
      HMAC = (\<lambda>alg key msg. key @ map (\<lambda>c. if c = CHR ''.'' then CHR ''-'' else c) msg)\<rparr>"


section \<open>The logger (pkg/logger/logger.go)\<close>

text \<open>
  A log entry is represented by its fields; what is written to the log is not part of
  the model. A call is \<open>Some\<close> entry when it returns and \<open>None\<close> when it does not.

  \<^verbatim>\<open>Logger\<close> embeds \<^verbatim>\<open>*logrus.Logger\<close> and declares a method \<^verbatim>\<open>WithFields\<close> of its own, whose
  body is \<^verbatim>\<open>return l.WithFields(fields)\<close> with \<^verbatim>\<open>l\<close> of type \<^verbatim>\<open>*Logger\<close>. The selector picks
  the method at the shallowest depth, which is this method: it calls itself, and the Go
  runtime ends the unbounded recursion with a fatal stack overflow.
\<close>

type_synonym Fields = "(string \<times> string) list"

partial_function (option) Logger_WithFields :: "Fields \<Rightarrow> Fields option" where
  "Logger_WithFields fs = Logger_WithFields fs"

definition Logger_WithUser :: "string \<Rightarrow> string \<Rightarrow> Fields option" where
  "Logger_WithUser userID email = Logger_WithFields [(''user_id'', userID), (''email'', email)]"

text \<open>
  \<^verbatim>\<open>WithError\<close> calls \<^verbatim>\<open>l.WithField\<close>, which \<^verbatim>\<open>Logger\<close> does not declare: that one is the
  promoted method of logrus, and returns.
\<close>

definition error_Error :: "error \<Rightarrow> string" where
  "error_Error err = (case err of Error msg \<Rightarrow> msg)"

definition Logger_WithError :: "error \<Rightarrow> Fields option" where
  "Logger_WithError err = Some [(''error'', error_Error err)]"


section \<open>Requests, responses and handlers (net/http as the middleware uses it)\<close>

text \<open>
  A context value is an \<^verbatim>\<open>interface{}\<close>: it carries its dynamic type. The middleware stores
  strings and a \<^verbatim>\<open>uuid.UUID\<close>, under string keys.
\<close>

datatype ctx_value = VString string | VUUID UUID

record Request =
  Method :: string
  URL_Path :: string
  Header :: "string \<rightharpoonup> string list"
  Context :: "string \<rightharpoonup> ctx_value"

record ResponseWriter =
  RespHeader :: "string \<rightharpoonup> string list"
  wroteHeader :: bool
  status :: nat
  body :: string

text \<open>
  A handler call returns with the response written so far, or panics; \<open>None\<close> is a call
  that never returns.
\<close>

datatype outcome = Returned ResponseWriter | Panicked string

type_synonym Handler = "ResponseWriter \<Rightarrow> Request \<Rightarrow> outcome option"

definition Header_Get :: "(string \<rightharpoonup> string list) \<Rightarrow> string \<Rightarrow> string" where
  "Header_Get h key = (case h key of None \<Rightarrow> [] | Some [] \<Rightarrow> [] | Some (v # vs) \<Rightarrow> v)"

definition Header_Set ::
    "(string \<rightharpoonup> string list) \<Rightarrow> string \<Rightarrow> string \<Rightarrow> (string \<rightharpoonup> string list)" where
  "Header_Set h key v = h(key \<mapsto> [v])"

definition WriteHeader :: "ResponseWriter \<Rightarrow> nat \<Rightarrow> ResponseWriter" where
  "WriteHeader w code = (if wroteHeader w then w else w\<lparr>wroteHeader := True, status := code\<rparr>)"

definition Write :: "ResponseWriter \<Rightarrow> string \<Rightarrow> ResponseWriter" where
  "Write w data =
     (let w = (if wroteHeader w then w else WriteHeader w 200)
      in w\<lparr>body := body w @ data\<rparr>)"

text \<open>The verb \<^verbatim>\<open>%d\<close> on a status code: its decimal digits.\<close>

function itoa :: "nat \<Rightarrow> string" where
  "itoa n =
     (if n < 10 then [''0123456789'' ! n]
      else itoa (n div 10) @ [''0123456789'' ! (n mod 10)])"
  by pat_completeness auto
termination
  by (relation "measure id") auto

declare itoa.simps [simp del]

fun Split :: "string \<Rightarrow> char \<Rightarrow> string list" where
  "Split [] sep = [[]]"
| "Split (c # cs) sep =
     (if c = sep then [] # Split cs sep
      else (case Split cs sep of p # ps \<Rightarrow> (c # p) # ps | [] \<Rightarrow> [[c]]))"

definition HasPrefix :: "string \<Rightarrow> string \<Rightarrow> bool" where
  "HasPrefix s p \<longleftrightarrow> take (length p) s = p"

definition TrimPrefix :: "string \<Rightarrow> string \<Rightarrow> string" where
  "TrimPrefix s p = (if HasPrefix s p then drop (length p) s else s)"


section \<open>The authentication middleware (internal/middleware/auth.go)\<close>

record AuthMiddleware =
  jwtManager :: JWTManager

definition sendErrorResponse :: "ResponseWriter \<Rightarrow> nat \<Rightarrow> string \<Rightarrow> ResponseWriter" where
  \<open>sendErrorResponse w statusCode message =
     (let w = w\<lparr>RespHeader := Header_Set (RespHeader w) ''Content-Type'' ''application/json''\<rparr>;
          w = WriteHeader w statusCode
      in Write w (''{"error":{"code":'' @ itoa statusCode @ '',"message":"'' @ message
                    @ ''"}}''))\<close>

definition skipPaths :: "(string \<times> string list) list" where
  "skipPaths =
     [(''/health'', [''GET'']),
      (''/metrics'', [''GET'']),
      (''/api/v1/auth/login'', [''POST'']),
      (''/api/v1/auth/register'', [''POST'']),
      (''/api/v1/auth/refresh'', [''POST''])]"

definition shouldSkipAuth :: "string \<Rightarrow> string \<Rightarrow> bool" where
  "shouldSkipAuth path method =
     (if (case map_of skipPaths path of
            Some methods \<Rightarrow> method \<in> set methods
          | None \<Rightarrow> False) then True
      else if method = ''OPTIONS'' then True
      else False)"

definition extractToken :: "Request \<Rightarrow> error + string" where
  "extractToken r =
     (let authHeader = Header_Get (Header r) ''Authorization'' in
      if authHeader = [] then Inl (Error ''authorization header is required'')
      else if \<not> HasPrefix authHeader ''Bearer ''
      then Inl (Error (''authorization header must start with 'Bearer '' @ [CHR 0x27]))
      else
        let token = TrimPrefix authHeader ''Bearer '' in
        if token = [] then Inl (Error ''token is empty'') else Inr token)"

text \<open>The three \<^verbatim>\<open>context.WithValue\<close> calls of \<^verbatim>\<open>Authenticate\<close>; the user id is stored as a UUID.\<close>

definition attach_identity :: "(string \<rightharpoonup> ctx_value) \<Rightarrow> Claims \<Rightarrow> (string \<rightharpoonup> ctx_value)" where
  "attach_identity ctx0 claims =
     (let ctx = ctx0(''user_id'' \<mapsto> VUUID (UserID claims));
          ctx = ctx(''user_email'' \<mapsto> VString (Email claims));
          ctx = ctx(''user_role'' \<mapsto> VString ''user'')
      in ctx)"

text \<open>\<open>now\<close> is the clock reading at which the token is validated.\<close>

definition Authenticate :: "jwt_codec \<Rightarrow> Time \<Rightarrow> AuthMiddleware \<Rightarrow> Handler \<Rightarrow> Handler" where
  "Authenticate lib now m next w r =
     (if shouldSkipAuth (URL_Path r) (Method r) then next w r
      else
        case extractToken r of
          Inl err \<Rightarrow>
            do {
              _ \<leftarrow> Logger_WithError err;
              Some (Returned (sendErrorResponse w 401 ''Invalid or missing authorization token''))
            }
        | Inr token \<Rightarrow>
            (case ValidateToken lib (jwtManager m) now token of
               Inl err \<Rightarrow>
                 do {
                   _ \<leftarrow> Logger_WithError err;
                   Some (Returned (sendErrorResponse w 401 ''Invalid or expired token''))
                 }
             | Inr claims \<Rightarrow>
                 (let ctx = attach_identity (Context r) claims in
                  do {
                    _ \<leftarrow> Logger_WithUser (UUID_String (UserID claims)) (Email claims);
                    next w (r\<lparr>Context := ctx\<rparr>)
                  })))"

text \<open>A type assertion \<^verbatim>\<open>v.(string)\<close> on a value of another dynamic type panics.\<close>

definition RequireRole :: "AuthMiddleware \<Rightarrow> string \<Rightarrow> Handler \<Rightarrow> Handler" where
  "RequireRole m requiredRole next w r =
     (case Context r ''user_role'' of
        None \<Rightarrow> Some (Returned (sendErrorResponse w 401 ''User role not found in context''))
      | Some userRole \<Rightarrow>
          (case userRole of
             VString role \<Rightarrow>
               if role \<noteq> requiredRole
               then do {
                 _ \<leftarrow> Logger_WithFields [(''user_role'', role), (''required_role'', requiredRole)];
                 Some (Returned (sendErrorResponse w 403 ''Insufficient permissions''))
               }
               else next w r
           | VUUID u \<Rightarrow> Some (Panicked ''interface conversion: interface {} is uuid.UUID, not string'')))"

definition RequireAdmin :: "AuthMiddleware \<Rightarrow> Handler \<Rightarrow> Handler" where
  "RequireAdmin m next = RequireRole m ''admin'' next"

text \<open>
  The loop of \<^verbatim>\<open>RequireUser\<close> over the path segments: the first segment \<^verbatim>\<open>users\<close> that is
  not the last one decides, and the loop ends there.
\<close>

fun RequireUser_loop ::
    "Handler \<Rightarrow> ResponseWriter \<Rightarrow> Request \<Rightarrow> ctx_value \<Rightarrow> string list \<Rightarrow> outcome option" where
  "RequireUser_loop next w r userID (part # pathUserID # rest) =
     (if part = ''users''
      then (case userID of
              VString uid \<Rightarrow>
                if pathUserID \<noteq> uid
                then do {
                  _ \<leftarrow> Logger_WithFields [(''authenticated_user_id'', uid),
                                           (''requested_user_id'', pathUserID)];
                  Some (Returned (sendErrorResponse w 403
                                    ''Cannot access another user's resources''))
                }
                else next w r
            | VUUID u \<Rightarrow>
                Some (Panicked ''interface conversion: interface {} is uuid.UUID, not string''))
      else RequireUser_loop next w r userID (pathUserID # rest))"
| "RequireUser_loop next w r userID parts = next w r"

definition RequireUser :: "AuthMiddleware \<Rightarrow> Handler \<Rightarrow> Handler" where
  "RequireUser m next w r =
     (case Context r ''user_id'' of
        None \<Rightarrow> Some (Returned (sendErrorResponse w 401 ''User ID not found in context''))
      | Some userID \<Rightarrow> RequireUser_loop next w r userID (Split (URL_Path r) (CHR ''/'')))"

text \<open>
  The segment that \<^verbatim>\<open>RequireUser\<close> compares with the user id: the one after the first
  segment \<^verbatim>\<open>users\<close> that has a successor.
\<close>

fun segment_after_users :: "string list \<Rightarrow> string option" where
  "segment_after_users (part # nxt # rest) =
     (if part = ''users'' then Some nxt else segment_after_users (nxt # rest))"
| "segment_after_users parts = None"


section \<open>Concrete inputs for evaluation\<close>

text \<open>
  A user id (550e8400-e29b-41d4-a716-446655440000), the manager built without
  \<^verbatim>\<open>JWT_SECRET\<close>, the access claims issued for that user at an instant with a fractional
  second, the test codec for these claims, the token it yields, a request carrying a
  bearer token, a fresh response writer and an inner handler that answers \<^verbatim>\<open>ok\<close>.
\<close>

definition example_uuid :: UUID where
  "example_uuid =
     map char_of [85, 14, 132, 0, 226, 155, 65, 212, 167, 22, 68, 102, 85, 68, 0, 0 :: nat]"

definition example_manager :: JWTManager where
  "example_manager = NewJWTManager []"

definition example_claims :: Claims where
  "example_claims =
     GenerateToken_claims example_manager 1700000000123456789 example_uuid ''test@example.com''"

definition example_codec :: jwt_codec where
  "example_codec = test_codec example_claims"

definition example_token :: string where
  "example_token = ''HS256.claims.your-super-secret-jwt-key-change-in-productionHS256-claims''"

definition example_middleware :: AuthMiddleware where
  "example_middleware = \<lparr>jwtManager = example_manager\<rparr>"

definition example_request :: "string \<Rightarrow> string \<Rightarrow> Request" where
  "example_request path token =
     \<lparr>Method = ''GET'', URL_Path = path,
      Header = [''Authorization'' \<mapsto> [''Bearer '' @ token]],
      Context = Map.empty\<rparr>"

definition bare_request :: "string \<Rightarrow> string \<Rightarrow> Request" where
  "bare_request method path =
     \<lparr>Method = method, URL_Path = path, Header = Map.empty, Context = Map.empty\<rparr>"

definition new_writer :: ResponseWriter where
  "new_writer = \<lparr>RespHeader = Map.empty, wroteHeader = False, status = 0, body = []\<rparr>"

definition ok_handler :: Handler where
  "ok_handler w r = Some (Returned (Write w ''ok''))"


section \<open>Properties of the password policy\<close>

lemmas class_defs = IsUpper_def IsLower_def IsNumber_def IsPunct_def IsSymbol_def

lemma foldl_hasUpper:
  "hasUpper (foldl (classify_char U) fl rs) \<longleftrightarrow> hasUpper fl \<or> (\<exists>r \<in> set rs. IsUpper U r)"
  by (induction rs arbitrary: fl) (auto simp: classify_char_def)

lemma foldl_hasLower:
  "hasLower (foldl (classify_char U) fl rs) \<longleftrightarrow>
     hasLower fl \<or> (\<exists>r \<in> set rs. \<not> IsUpper U r \<and> IsLower U r)"
  by (induction rs arbitrary: fl) (auto simp: classify_char_def)

lemma foldl_hasNumber:
  "hasNumber (foldl (classify_char U) fl rs) \<longleftrightarrow>
     hasNumber fl \<or> (\<exists>r \<in> set rs. \<not> IsUpper U r \<and> \<not> IsLower U r \<and> IsNumber U r)"
  by (induction rs arbitrary: fl) (auto simp: classify_char_def)

lemma foldl_hasSpecial:
  "hasSpecial (foldl (classify_char U) fl rs) \<longleftrightarrow>
     hasSpecial fl \<or> (\<exists>r \<in> set rs. \<not> IsUpper U r \<and> \<not> IsLower U r \<and> \<not> IsNumber U r
                                    \<and> (IsPunct U r \<or> IsSymbol U r))"
  by (induction rs arbitrary: fl) (auto simp: classify_char_def)

lemma scan_hasUpper:
  "hasUpper (scan_password U pw) \<longleftrightarrow> (\<exists>r \<in> set (runes pw). IsUpper U r)"
  by (simp add: scan_password_def foldl_hasUpper no_flags_def)

lemma scan_hasLower:
  "hasLower (scan_password U pw) \<longleftrightarrow> (\<exists>r \<in> set (runes pw). \<not> IsUpper U r \<and> IsLower U r)"
  by (simp add: scan_password_def foldl_hasLower no_flags_def)

lemma scan_hasNumber:
  "hasNumber (scan_password U pw) \<longleftrightarrow>
     (\<exists>r \<in> set (runes pw). \<not> IsUpper U r \<and> \<not> IsLower U r \<and> IsNumber U r)"
  by (simp add: scan_password_def foldl_hasNumber no_flags_def)

lemma scan_hasSpecial:
  "hasSpecial (scan_password U pw) \<longleftrightarrow>
     (\<exists>r \<in> set (runes pw). \<not> IsUpper U r \<and> \<not> IsLower U r \<and> \<not> IsNumber U r
                              \<and> (IsPunct U r \<or> IsSymbol U r))"
  by (simp add: scan_password_def foldl_hasSpecial no_flags_def)

text \<open>With disjoint classes the order of the cases in the \<^verbatim>\<open>switch\<close> does not matter.\<close>

lemma disjoint_hasLower:
  "classes_disjoint U \<Longrightarrow>
     hasLower (scan_password U pw) \<longleftrightarrow> (\<exists>r \<in> set (runes pw). IsLower U r)"
  unfolding scan_hasLower classes_disjoint_def by blast

lemma disjoint_hasNumber:
  "classes_disjoint U \<Longrightarrow>
     hasNumber (scan_password U pw) \<longleftrightarrow> (\<exists>r \<in> set (runes pw). IsNumber U r)"
  unfolding scan_hasNumber classes_disjoint_def by blast

lemma disjoint_hasSpecial:
  "classes_disjoint U \<Longrightarrow>
     hasSpecial (scan_password U pw) \<longleftrightarrow> (\<exists>r \<in> set (runes pw). IsPunct U r \<or> IsSymbol U r)"
  unfolding scan_hasSpecial classes_disjoint_def by blast

lemma classes_disjoint_ascii: "classes_disjoint ascii_tables"
  unfolding classes_disjoint_def class_defs ascii_tables_def
  by auto

text \<open>The score is a sum of non-negative bonuses, 110 at most.\<close>

lemma score_bounds: "0 \<le> GetPasswordStrength U pw \<and> GetPasswordStrength U pw \<le> 110"
  by (simp add: GetPasswordStrength_def Let_def)

text \<open>
  C2, as stated: strength validation reports one entry for every violated rule. It fails on
  the password \<^verbatim>\<open>weak\<close>, which is too short and lacks an uppercase letter, a digit and a
  special character: the code reports the length violation alone.
\<close>

theorem validate_reports_one_counterexample:
  "error_entries (IsPasswordValid ascii_tables ''weak'') \<noteq> spec_violations ascii_tables ''weak''"
  by (simp add: error_entries_def IsPasswordValid_def validatePasswordStrength_def
        spec_violations_def class_defs)

text \<open>
  C2, amended: strength validation checks the rules in order (minimum length, maximum
  length, uppercase, lowercase, digit, special character) and returns the first violated
  rule as a single error; it returns no error exactly when no rule is violated.
\<close>

theorem validate_first_violation:
  assumes "classes_disjoint U"
  shows "IsPasswordValid U pw = validatePasswordStrength U pw
       \<and> validatePasswordStrength U pw
           = (case spec_violations U pw of [] \<Rightarrow> None | e # es \<Rightarrow> Some e)
       \<and> (validatePasswordStrength U pw = None \<longleftrightarrow> spec_violations U pw = [])"
  using assms
  by (simp add: IsPasswordValid_def validatePasswordStrength_def spec_violations_def Let_def
        scan_hasUpper disjoint_hasLower disjoint_hasNumber disjoint_hasSpecial)

theorem validate_first_violation_witness:
  "classes_disjoint ascii_tables
   \<and> validatePasswordStrength ascii_tables ''password1''
       = Some ''password must contain at least one uppercase letter''
   \<and> spec_violations ascii_tables ''password1''
       = [''password must contain at least one uppercase letter'',
          ''password must contain at least one special character'']
   \<and> validatePasswordStrength ascii_tables ''SecurePass123!'' = None
   \<and> spec_violations ascii_tables ''SecurePass123!'' = []"
  using validate_first_violation [OF classes_disjoint_ascii, of "''password1''"]
    validate_first_violation [OF classes_disjoint_ascii, of "''SecurePass123!''"]
    classes_disjoint_ascii
  by (simp add: spec_violations_def class_defs)

text \<open>
  C3: the score is documented as lying between 0 and 100. A password of 16 bytes or more
  with all four character classes collects every bonus: 40 for its length, 60 for the
  classes, 10 for mixed case.
\<close>

theorem strength_exceeds_100:
  "GetPasswordStrength U ''SuperSecurePass123!@#'' = 110"
  by (simp add: GetPasswordStrength_def scan_password_def classify_char_def no_flags_def
        class_defs)

text \<open>
  C9: the label is determined by the score thresholds 80, 60, 40 and 20; the password
  \<^verbatim>\<open>Abc123!@#\<close> is labelled Very Strong and \<^verbatim>\<open>password123\<close> is labelled Medium.
\<close>

theorem label_thresholds:
  "GetPasswordStrengthLabel U pw =
     (if GetPasswordStrength U pw \<ge> 80 then ''Very Strong''
      else if GetPasswordStrength U pw \<ge> 60 then ''Strong''
      else if GetPasswordStrength U pw \<ge> 40 then ''Medium''
      else if GetPasswordStrength U pw \<ge> 20 then ''Weak''
      else ''Very Weak'')
   \<and> GetPasswordStrengthLabel U ''Abc123!@#'' = ''Very Strong''
   \<and> GetPasswordStrengthLabel U ''password123'' = ''Medium''"
  by (simp add: GetPasswordStrengthLabel_def GetPasswordStrength_def scan_password_def
        classify_char_def no_flags_def class_defs)

theorem label_thresholds_witness:
  "GetPasswordStrength ascii_tables ''Password123'' = 75
   \<and> GetPasswordStrengthLabel ascii_tables ''Password123'' = ''Strong''
   \<and> GetPasswordStrengthLabel ascii_tables ''weak'' = ''Very Weak''"
  using label_thresholds [of ascii_tables "''Password123''"]
    label_thresholds [of ascii_tables "''weak''"]
  by (simp add: GetPasswordStrength_def scan_password_def classify_char_def no_flags_def
        class_defs)

text \<open>
  C10: the length rules count bytes. A password of at least 8 bytes passes the
  minimum-length rule and earns the length bonus of 20, whatever its number of characters,
  while the four class flags are decided code point by code point, over the runes the
  bytes decode to.
\<close>

theorem length_counts_bytes:
  assumes "8 \<le> length pw"
  shows "validatePasswordStrength U pw \<noteq> Some ''password must be at least 8 characters long''
       \<and> 20 \<le> GetPasswordStrength U pw
       \<and> (hasUpper (scan_password U pw) \<longleftrightarrow> (\<exists>r \<in> set (runes pw). IsUpper U r))
       \<and> (hasLower (scan_password U pw)
            \<longleftrightarrow> (\<exists>r \<in> set (runes pw). \<not> IsUpper U r \<and> IsLower U r))
       \<and> (hasNumber (scan_password U pw)
            \<longleftrightarrow> (\<exists>r \<in> set (runes pw). \<not> IsUpper U r \<and> \<not> IsLower U r \<and> IsNumber U r))
       \<and> (hasSpecial (scan_password U pw)
            \<longleftrightarrow> (\<exists>r \<in> set (runes pw). \<not> IsUpper U r \<and> \<not> IsLower U r \<and> \<not> IsNumber U r
                                     \<and> (IsPunct U r \<or> IsSymbol U r)))"
proof -
  have "validatePasswordStrength U pw \<noteq> Some ''password must be at least 8 characters long''"
    using assms by (simp add: validatePasswordStrength_def Let_def)
  moreover have "20 \<le> GetPasswordStrength U pw"
    using assms by (simp add: GetPasswordStrength_def Let_def)
  ultimately show ?thesis
    using scan_hasUpper scan_hasLower scan_hasNumber scan_hasSpecial by blast
qed

text \<open>Four two-byte runes (U+00E9 four times): 8 bytes, 4 characters.\<close>

theorem length_counts_bytes_witness:
  "8 \<le> length (map char_of [195, 169, 195, 169, 195, 169, 195, 169 :: nat])
   \<and> runes (map char_of [195, 169, 195, 169, 195, 169, 195, 169 :: nat]) = [233, 233, 233, 233]
   \<and> validatePasswordStrength ascii_tables
         (map char_of [195, 169, 195, 169, 195, 169, 195, 169 :: nat])
       \<noteq> Some ''password must be at least 8 characters long''
   \<and> 20 \<le> GetPasswordStrength ascii_tables
              (map char_of [195, 169, 195, 169, 195, 169, 195, 169 :: nat])"
  using length_counts_bytes
    [of "map char_of [195, 169, 195, 169, 195, 169, 195, 169 :: nat]" ascii_tables]
  by simp


section \<open>Properties of the token service\<close>

lemma takeWhile_upto_sep:
  "sep \<notin> set a \<Longrightarrow> takeWhile (\<lambda>c. c \<noteq> sep) (a @ sep # b) = a"
  by (induction a) auto

lemma dropWhile_upto_sep:
  "sep \<notin> set a \<Longrightarrow> dropWhile (\<lambda>c. c \<noteq> sep) (a @ sep # b) = sep # b"
  by (induction a) auto

lemma Cut_append:
  "sep \<notin> set a \<Longrightarrow> Cut (a @ sep # b) sep = Some (a, b)"
  by (simp add: Cut_def takeWhile_upto_sep dropWhile_upto_sep)

lemma splitToken_joined:
  assumes "CHR ''.'' \<notin> set h" "CHR ''.'' \<notin> set c" "CHR ''.'' \<notin> set s"
  shows "splitToken (h @ CHR ''.'' # c @ CHR ''.'' # s) = Some (h, c, s)"
  using assms by (simp add: splitToken_def Cut_append)

text \<open>Truncation to the second commutes with adding whole hours.\<close>

lemma NewNumericDate_add_hours:
  "NewNumericDate (Time_Add now (k * Hour)) = NewNumericDate now + k * Hour"
proof -
  have e: "k * 3600000000000 = 1000000000 * (3600 * k)" for k :: int
    by simp
  have "(now + k * 3600000000000) mod 1000000000 = now mod (1000000000 :: int)"
    unfolding e by (rule mod_mult_self2)
  then show ?thesis
    by (simp add: NewNumericDate_def Time_Truncate_def TimePrecision_def Second_def Hour_def
          Time_Add_def)
qed

lemma Validator_Validate_dates:
  "ExpiresAt c = Some e \<Longrightarrow> NotBefore c = Some n \<Longrightarrow> now < e \<Longrightarrow> \<not> now < n
     \<Longrightarrow> Validator_Validate now c = None"
  by (simp add: Validator_Validate_def Time_Before_def)

text \<open>A token signed with HS256 under the manager's key validates to its claims.\<close>

lemma ValidateToken_signed:
  assumes rt: "codec_roundtrip lib ''HS256'' claims (HMAC lib ''HS256'' (secretKey j)
                 (EncodeHeader lib ''HS256'' @ ''.'' @ EncodeClaims lib claims))"
    and v: "Validator_Validate now claims = None"
    and s: "SignedString lib (NewWithClaims SigningMethodHS256 claims) (secretKey j) = Inr tok"
  shows "ValidateToken lib j now tok = Inr claims"
proof -
  let ?h = "EncodeHeader lib ''HS256''"
  let ?c = "EncodeClaims lib claims"
  let ?sig = "HMAC lib ''HS256'' (secretKey j) (?h @ CHR ''.'' # ?c)"
  from s have tok: "tok = ?h @ CHR ''.'' # ?c @ CHR ''.'' # EncodeSegment lib ?sig"
    by (auto simp: SignedString_def SigningString_def NewWithClaims_def SigningMethodHS256_def
          SigningMethod_Sign_def Alg_def Let_def)
  from rt have split: "splitToken tok = Some (?h, ?c, EncodeSegment lib ?sig)"
    unfolding tok by (intro splitToken_joined) (simp_all add: codec_roundtrip_def)
  from rt have dec: "DecodeHeader lib ?h = Some (Some ''HS256'')"
      "DecodeClaims lib ?c = Some claims"
      "DecodeSegment lib (EncodeSegment lib ?sig) = Some ?sig"
    by (simp_all add: codec_roundtrip_def)
  have pu: "ParseUnverified lib tok =
      Inr (\<lparr>Token_Raw = tok, Token_Method = SigningMethodHMAC ''HS256'', Token_Claims = claims,
            Token_Signature = [], Token_Valid = False\<rparr>, ?h, ?c, EncodeSegment lib ?sig)"
    by (simp add: ParseUnverified_def split dec GetSigningMethod_def)
  show ?thesis
    by (simp add: ValidateToken_def ParseWithClaims_def pu dec keyFunc_def
          SigningMethod_Verify_def v Let_def)
qed

lemma keyFunc_rejects:
  "(\<forall>a. Token_Method t \<noteq> SigningMethodHMAC a) \<Longrightarrow> isl (keyFunc j t)"
  by (cases "Token_Method t") (simp_all add: keyFunc_def)

lemma GetSigningMethod_HMAC:
  "GetSigningMethod alg = Some (SigningMethodHMAC a)
     \<Longrightarrow> alg \<in> set [''HS256'', ''HS384'', ''HS512'']"
  by (simp add: GetSigningMethod_def split: if_splits)

lemma ParseUnverified_method:
  assumes "ParseUnverified lib tok = Inr (t, h, c, s)"
  shows "\<exists>alg. alg_tag lib tok = Some alg \<and> GetSigningMethod alg = Some (Token_Method t)"
  using assms
  by (auto simp: ParseUnverified_def alg_tag_def split: option.splits)

text \<open>The example codec and token behave as a codec should on the example claims.\<close>

lemma example_codec_roundtrip:
  "codec_roundtrip example_codec ''HS256'' example_claims
     (HMAC example_codec ''HS256'' (secretKey example_manager)
        (EncodeHeader example_codec ''HS256'' @ ''.'' @ EncodeClaims example_codec example_claims))"
  by (simp add: codec_roundtrip_def example_codec_def test_codec_def example_manager_def
        NewJWTManager_def)

lemma example_token_generated:
  "GenerateToken example_codec example_manager 1700000000123456789 example_uuid
     ''test@example.com'' = Inr example_token"
  by (simp add: GenerateToken_def SignedString_def SigningString_def NewWithClaims_def
        SigningMethodHS256_def SigningMethod_Sign_def Alg_def example_codec_def test_codec_def
        example_manager_def NewJWTManager_def example_token_def Let_def)

lemma example_dates:
  "ExpiresAt example_claims = Some 1700086400000000000"
  "NotBefore example_claims = Some 1700000000000000000"
  by (simp_all add: example_claims_def GenerateToken_claims_def NewNumericDate_def
        Time_Truncate_def TimePrecision_def Second_def Hour_def Time_Add_def Let_def)

lemma example_token_valid:
  "ValidateToken example_codec example_manager 1700003600000000000 example_token
     = Inr example_claims"
proof -
  have "Validator_Validate 1700003600000000000 example_claims = None"
    by (simp add: Validator_Validate_def example_dates Time_Before_def)
  moreover have "SignedString example_codec (NewWithClaims SigningMethodHS256 example_claims)
      (secretKey example_manager) = Inr example_token"
    using example_token_generated by (simp add: GenerateToken_def example_claims_def Let_def)
  ultimately show ?thesis
    using example_codec_roundtrip by (intro ValidateToken_signed)
qed

text \<open>
  C5: a token string whose algorithm tag is not one of the HMAC methods (HS256, HS384,
  HS512), or that carries no tag at all, is rejected by \<open>ValidateToken\<close> with an error; no
  claims are returned.
\<close>

theorem non_hmac_token_rejected:
  assumes "alg_tag lib tok \<notin> Some ` set [''HS256'', ''HS384'', ''HS512'']"
  shows "isl (ValidateToken lib j now tok)"
proof (cases "ParseUnverified lib tok")
  case (Inl err)
  then show ?thesis
    by (simp add: ValidateToken_def ParseWithClaims_def)
next
  case (Inr p)
  then obtain t h c s where p: "ParseUnverified lib tok = Inr (t, h, c, s)"
    by (cases p) auto
  from ParseUnverified_method [OF p] obtain alg
    where alg: "alg_tag lib tok = Some alg" "GetSigningMethod alg = Some (Token_Method t)"
    by blast
  have "\<forall>a. Token_Method t \<noteq> SigningMethodHMAC a"
  proof (intro allI notI)
    fix a assume "Token_Method t = SigningMethodHMAC a"
    with alg(2) have "alg \<in> set [''HS256'', ''HS384'', ''HS512'']"
      by (intro GetSigningMethod_HMAC [of alg a]) simp
    with alg(1) assms show False by blast
  qed
  then have kf: "isl (keyFunc j (t\<lparr>Token_Signature := sg\<rparr>))" for sg
    by (intro keyFunc_rejects) simp
  have "isl (ParseWithClaims lib now tok (keyFunc j))"
  proof (cases "DecodeSegment lib s")
    case None
    then show ?thesis
      by (simp add: ParseWithClaims_def p)
  next
    case (Some sg)
    from kf [of sg] obtain e where "keyFunc j (t\<lparr>Token_Signature := sg\<rparr>) = Inl e"
      by (auto simp: isl_def)
    then show ?thesis
      by (simp add: ParseWithClaims_def p Some Let_def)
  qed
  then obtain e where "ParseWithClaims lib now tok (keyFunc j) = Inl e"
    by (auto simp: isl_def)
  then show ?thesis
    by (simp add: ValidateToken_def)
qed

text \<open>The example token validates; with its tag swapped to \<^verbatim>\<open>none\<close> it is rejected.\<close>

theorem non_hmac_token_rejected_witness:
  "alg_tag example_codec ''none.claims.your-super-secret-jwt-key-change-in-productionHS256-claims''
     \<notin> Some ` set [''HS256'', ''HS384'', ''HS512'']
   \<and> isl (ValidateToken example_codec example_manager 1700003600000000000
            ''none.claims.your-super-secret-jwt-key-change-in-productionHS256-claims'')
   \<and> ValidateToken example_codec example_manager 1700003600000000000
        ''HS256.claims.your-super-secret-jwt-key-change-in-productionHS256-claims''
       = Inr example_claims"
proof -
  have h: "alg_tag example_codec
      ''none.claims.your-super-secret-jwt-key-change-in-productionHS256-claims''
        \<notin> Some ` set [''HS256'', ''HS384'', ''HS512'']"
    by (simp add: alg_tag_def splitToken_def Cut_def example_codec_def test_codec_def)
  show ?thesis
    using h non_hmac_token_rejected [OF h, of example_manager 1700003600000000000]
      example_token_valid
    by (simp add: example_token_def)
qed

text \<open>
  C6: issuing an access token for a user id and an email always yields a token, and
  validating that token with the same manager, at an instant before its expiry and not
  before its not-before date, succeeds with claims that carry exactly that id and email.
  The codec is assumed to decode the three segments of this token to what was encoded.
\<close>

theorem validate_generated_token:
  assumes "codec_roundtrip lib ''HS256'' (GenerateToken_claims j t0 userID email)
             (HMAC lib ''HS256'' (secretKey j)
                (EncodeHeader lib ''HS256'' @ ''.''
                   @ EncodeClaims lib (GenerateToken_claims j t0 userID email)))"
    and "Time_Before t1 (NewNumericDate t0 + 24 * Hour)"
    and "\<not> Time_Before t1 (NewNumericDate t0)"
  shows "\<exists>tok claims. GenerateToken lib j t0 userID email = Inr tok
           \<and> ValidateToken lib j t1 tok = Inr claims
           \<and> UserID claims = userID \<and> Email claims = email"
proof -
  let ?c = "GenerateToken_claims j t0 userID email"
  obtain tok where tok: "GenerateToken lib j t0 userID email = Inr tok"
    by (simp add: GenerateToken_def SignedString_def NewWithClaims_def SigningMethodHS256_def
          SigningMethod_Sign_def Let_def)
  have "Validator_Validate t1 ?c = None"
    using assms(2,3)
    by (intro Validator_Validate_dates [where e = "NewNumericDate t0 + 24 * Hour"
            and n = "NewNumericDate t0"])
       (simp_all add: GenerateToken_claims_def NewNumericDate_add_hours Let_def Time_Before_def)
  moreover have "SignedString lib (NewWithClaims SigningMethodHS256 ?c) (secretKey j) = Inr tok"
    using tok by (simp add: GenerateToken_def Let_def)
  ultimately have "ValidateToken lib j t1 tok = Inr ?c"
    using assms(1) by (intro ValidateToken_signed)
  moreover have "UserID ?c = userID" "Email ?c = email"
    by (simp_all add: GenerateToken_claims_def Let_def)
  ultimately show ?thesis
    using tok by blast
qed

theorem validate_generated_token_witness:
  "codec_roundtrip example_codec ''HS256''
     (GenerateToken_claims example_manager 1700000000123456789 example_uuid ''test@example.com'')
     (HMAC example_codec ''HS256'' (secretKey example_manager)
        (EncodeHeader example_codec ''HS256'' @ ''.''
           @ EncodeClaims example_codec
               (GenerateToken_claims example_manager 1700000000123456789 example_uuid
                  ''test@example.com'')))
   \<and> Time_Before 1700003600000000000 (NewNumericDate 1700000000123456789 + 24 * Hour)
   \<and> \<not> Time_Before 1700003600000000000 (NewNumericDate 1700000000123456789)
   \<and> (\<exists>tok claims.
         GenerateToken example_codec example_manager 1700000000123456789 example_uuid
           ''test@example.com'' = Inr tok
         \<and> ValidateToken example_codec example_manager 1700003600000000000 tok = Inr claims
         \<and> UserID claims = example_uuid \<and> Email claims = ''test@example.com'')"
proof -
  have h1: "codec_roundtrip example_codec ''HS256''
     (GenerateToken_claims example_manager 1700000000123456789 example_uuid ''test@example.com'')
     (HMAC example_codec ''HS256'' (secretKey example_manager)
        (EncodeHeader example_codec ''HS256'' @ ''.''
           @ EncodeClaims example_codec
               (GenerateToken_claims example_manager 1700000000123456789 example_uuid
                  ''test@example.com'')))"
    using example_codec_roundtrip by (simp add: example_claims_def)
  have h2: "Time_Before 1700003600000000000 (NewNumericDate 1700000000123456789 + 24 * Hour)"
    by (simp add: Time_Before_def NewNumericDate_def Time_Truncate_def TimePrecision_def
          Second_def Hour_def)
  have h3: "\<not> Time_Before 1700003600000000000 (NewNumericDate 1700000000123456789)"
    by (simp add: Time_Before_def NewNumericDate_def Time_Truncate_def TimePrecision_def
          Second_def)
  show ?thesis
    using h1 h2 h3 validate_generated_token [OF h1 h2 h3] by blast
qed

text \<open>
  C7, as stated: refresh tokens carry no email claim. It fails on the refresh claims minted
  for the example user: the field \<^verbatim>\<open>Email\<close> is left at the empty string, and since its tag has
  no \<^verbatim>\<open>omitempty\<close> the token carries the claim \<^verbatim>\<open>email\<close> all the same.
\<close>

theorem refresh_token_carries_email_counterexample:
  "''email'' \<in> set (claim_names
      (GenerateRefreshToken_claims example_manager 1700000000123456789 example_uuid))"
  by (simp add: claim_names_def Claims_json_members_def)

text \<open>
  C7, amended: the claims minted by a manager made with \<open>NewJWTManager\<close>. Not-before equals
  issued-at, expiry is issued-at plus 24 hours for an access token and plus 7 times 24
  hours for a refresh token, the issuer is \<^verbatim>\<open>tgfinance\<close>, the subject is the printed user id;
  an access token carries the email it was issued for, and a refresh token carries an
  email claim whose value is the empty string. These are the claims that the two
  generators sign.
\<close>

theorem minted_claims_shape:
  "IssuedAt (GenerateToken_claims (NewJWTManager env) now userID email)
       = Some (NewNumericDate now)
   \<and> NotBefore (GenerateToken_claims (NewJWTManager env) now userID email)
       = IssuedAt (GenerateToken_claims (NewJWTManager env) now userID email)
   \<and> ExpiresAt (GenerateToken_claims (NewJWTManager env) now userID email)
       = Some (NewNumericDate now + 24 * Hour)
   \<and> Issuer (GenerateToken_claims (NewJWTManager env) now userID email) = ''tgfinance''
   \<and> Subject (GenerateToken_claims (NewJWTManager env) now userID email) = UUID_String userID
   \<and> map_of (Claims_json_members (GenerateToken_claims (NewJWTManager env) now userID email))
         ''email'' = Some (JString email)
   \<and> IssuedAt (GenerateRefreshToken_claims (NewJWTManager env) now userID)
       = Some (NewNumericDate now)
   \<and> NotBefore (GenerateRefreshToken_claims (NewJWTManager env) now userID)
       = IssuedAt (GenerateRefreshToken_claims (NewJWTManager env) now userID)
   \<and> ExpiresAt (GenerateRefreshToken_claims (NewJWTManager env) now userID)
       = Some (NewNumericDate now + 7 * 24 * Hour)
   \<and> Issuer (GenerateRefreshToken_claims (NewJWTManager env) now userID) = ''tgfinance''
   \<and> Subject (GenerateRefreshToken_claims (NewJWTManager env) now userID) = UUID_String userID
   \<and> Email (GenerateRefreshToken_claims (NewJWTManager env) now userID) = []
   \<and> map_of (Claims_json_members (GenerateRefreshToken_claims (NewJWTManager env) now userID))
         ''email'' = Some (JString [])
   \<and> GenerateToken lib (NewJWTManager env) now userID email
       = SignedString lib
           (NewWithClaims SigningMethodHS256
              (GenerateToken_claims (NewJWTManager env) now userID email))
           (secretKey (NewJWTManager env))
   \<and> GenerateRefreshToken lib (NewJWTManager env) now userID
       = SignedString lib
           (NewWithClaims SigningMethodHS256
              (GenerateRefreshToken_claims (NewJWTManager env) now userID))
           (secretKey (NewJWTManager env))"
proof -
  have "NewNumericDate (Time_Add now (7 * 24 * Hour)) = NewNumericDate now + 7 * 24 * Hour"
    using NewNumericDate_add_hours [of now "7 * 24"] by simp
  then show ?thesis
    by (simp add: GenerateToken_claims_def GenerateRefreshToken_claims_def NewJWTManager_def
          NewNumericDate_add_hours GenerateToken_def GenerateRefreshToken_def
          Claims_json_members_def Let_def)
qed

text \<open>
  The claims of the example user: the dates of both tokens, and all the members of the
  refresh token's claims object.
\<close>

theorem minted_claims_shape_witness:
  "IssuedAt (GenerateToken_claims (NewJWTManager []) 1700000000123456789 example_uuid
       ''test@example.com'') = Some 1700000000000000000
   \<and> ExpiresAt (GenerateToken_claims (NewJWTManager []) 1700000000123456789 example_uuid
       ''test@example.com'') = Some 1700086400000000000
   \<and> ExpiresAt (GenerateRefreshToken_claims (NewJWTManager []) 1700000000123456789 example_uuid)
       = Some 1700604800000000000
   \<and> Claims_json_members
        (GenerateRefreshToken_claims (NewJWTManager []) 1700000000123456789 example_uuid)
       = [(''user_id'', JString ''550e8400-e29b-41d4-a716-446655440000''),
          (''email'', JString []),
          (''iss'', JString ''tgfinance''),
          (''sub'', JString ''550e8400-e29b-41d4-a716-446655440000''),
          (''exp'', JNumericDate 1700604800000000000),
          (''nbf'', JNumericDate 1700000000000000000),
          (''iat'', JNumericDate 1700000000000000000)]"
  using minted_claims_shape [of "[]" 1700000000123456789 example_uuid "''test@example.com''"]
  by (simp add: NewNumericDate_def Time_Truncate_def TimePrecision_def Second_def Hour_def
        UUID_String_def hex_encode_def example_uuid_def Claims_json_members_def
        omitempty_string_def omitempty_strings_def omitempty_date_def
        GenerateRefreshToken_claims_def NewJWTManager_def Time_Add_def Let_def)


section \<open>Properties of the middleware\<close>

text \<open>\<open>Logger.WithFields\<close> returns on no input, and neither does \<open>WithUser\<close>, which calls it.\<close>

lemma Logger_WithFields_never_returns: "Logger_WithFields fs = None"
proof (cases "Logger_WithFields fs")
  case None
  then show ?thesis .
next
  case (Some e)
  have False
    by (rule Logger_WithFields.raw_induct [where P = "\<lambda>_ _. False", OF _ Some]) blast
  then show ?thesis ..
qed

lemma Logger_WithUser_never_returns: "Logger_WithUser userID email = None"
  by (simp add: Logger_WithUser_def Logger_WithFields_never_returns)

lemma shouldSkipAuth_iff:
  "shouldSkipAuth path method \<longleftrightarrow>
     (path, method) \<in> set [(''/health'', ''GET''), (''/metrics'', ''GET''),
                            (''/api/v1/auth/login'', ''POST''),
                            (''/api/v1/auth/register'', ''POST''),
                            (''/api/v1/auth/refresh'', ''POST'')]
     \<or> method = ''OPTIONS''"
  by (simp add: shouldSkipAuth_def skipPaths_def)

lemma itoa_401: "itoa 401 = ''401''"
  by (simp add: itoa.simps)

lemma sendErrorResponse_401:
  \<open>\<not> wroteHeader w \<Longrightarrow>
     sendErrorResponse w 401 msg =
       w\<lparr>RespHeader := (RespHeader w)(''Content-Type'' \<mapsto> [''application/json'']),
         wroteHeader := True, status := 401,
         body := body w @ ''{"error":{"code":401,"message":"'' @ msg @ ''"}}''\<rparr>\<close>
  by (simp add: sendErrorResponse_def Header_Set_def WriteHeader_def Write_def itoa_401)

lemma TrimPrefix_self: "TrimPrefix p p = []"
  by (simp add: TrimPrefix_def HasPrefix_def)

lemma extractToken_Inr:
  assumes "extractToken r = Inr token"
  shows "token = TrimPrefix (Header_Get (Header r) ''Authorization'') ''Bearer ''"
    and "Header_Get (Header r) ''Authorization'' \<noteq> []"
    and "HasPrefix (Header_Get (Header r) ''Authorization'') ''Bearer ''"
    and "Header_Get (Header r) ''Authorization'' \<noteq> ''Bearer ''"
proof -
  let ?h = "Header_Get (Header r) ''Authorization''"
  from assms have a: "?h \<noteq> []" "HasPrefix ?h ''Bearer ''" "TrimPrefix ?h ''Bearer '' \<noteq> []"
      "token = TrimPrefix ?h ''Bearer ''"
    unfolding extractToken_def Let_def by (simp_all split: if_splits)
  show "token = TrimPrefix ?h ''Bearer ''" "?h \<noteq> []" "HasPrefix ?h ''Bearer ''"
    using a by blast+
  show "?h \<noteq> ''Bearer ''"
    using a(3) TrimPrefix_self by metis
qed

lemma Header_Get_missing: "h key = None \<Longrightarrow> Header_Get h key = []"
  by (simp add: Header_Get_def)

lemma attach_identity_role: "attach_identity ctx claims ''user_role'' = Some (VString ''user'')"
  by (simp add: attach_identity_def)

lemma attach_identity_user_id:
  "attach_identity ctx claims ''user_id'' = Some (VUUID (UserID claims))"
  by (simp add: attach_identity_def)

text \<open>
  On a valid token \<open>Authenticate\<close> builds the context and then calls \<open>WithUser\<close>: the
  call to the next handler is never reached.
\<close>

lemma Authenticate_valid_token:
  assumes "\<not> shouldSkipAuth (URL_Path r) (Method r)"
    and "extractToken r = Inr tok"
    and "ValidateToken lib (jwtManager m) now tok = Inr claims"
  shows "Authenticate lib now m next w r = None"
  using assms by (simp add: Authenticate_def Logger_WithUser_never_returns)

lemma RequireRole_mismatch:
  "Context r ''user_role'' = Some (VString role) \<Longrightarrow> role \<noteq> required
     \<Longrightarrow> RequireRole m required next w r = None"
  by (simp add: RequireRole_def Logger_WithFields_never_returns)

lemma RequireUser_loop_string:
  "RequireUser_loop next w r (VString uid) parts =
     (case segment_after_users parts of
        None \<Rightarrow> next w r
      | Some seg \<Rightarrow> if seg \<noteq> uid then None else next w r)"
  by (induction parts rule: segment_after_users.induct)
     (simp_all add: Logger_WithFields_never_returns)

lemma RequireUser_loop_uuid:
  "RequireUser_loop next w r (VUUID u) parts =
     (case segment_after_users parts of
        None \<Rightarrow> next w r
      | Some seg \<Rightarrow>
          Some (Panicked ''interface conversion: interface {} is uuid.UUID, not string''))"
  by (induction parts rule: segment_after_users.induct) simp_all

lemma example_request_token:
  "extractToken (example_request path example_token) = Inr example_token"
  by (simp add: extractToken_def example_request_def Header_Get_def HasPrefix_def TrimPrefix_def
        example_token_def)

lemma example_request_not_skipped:
  "\<not> shouldSkipAuth (URL_Path (example_request ''/api/v1/users/42/expenses'' tok))
        (Method (example_request ''/api/v1/users/42/expenses'' tok))"
  by (simp add: shouldSkipAuth_def skipPaths_def example_request_def)

text \<open>
  C4: the bypass list is the five (path, method) pairs together with every \<^verbatim>\<open>OPTIONS\<close>
  request; a bypassed request goes to the next handler unchanged. Any other request whose
  \<^verbatim>\<open>Authorization\<close> header is missing, does not start with \<^verbatim>\<open>Bearer \<close>, has nothing after
  that prefix, or carries a token that fails validation is answered on a fresh response
  writer with status 401, content type \<^verbatim>\<open>application/json\<close> and the JSON error body; the
  answer does not depend on the next handler, which is not called.
\<close>

theorem Authenticate_bypass_or_401:
  \<open>(shouldSkipAuth path method \<longleftrightarrow>
       (path, method) \<in> set [(''/health'', ''GET''), (''/metrics'', ''GET''),
                              (''/api/v1/auth/login'', ''POST''),
                              (''/api/v1/auth/register'', ''POST''),
                              (''/api/v1/auth/refresh'', ''POST'')]
       \<or> method = ''OPTIONS'')
   \<and> (shouldSkipAuth (URL_Path r) (Method r) \<longrightarrow> Authenticate lib now m next w r = next w r)
   \<and> (\<not> shouldSkipAuth (URL_Path r) (Method r) \<and> \<not> wroteHeader w
        \<and> (Header r ''Authorization'' = None
            \<or> \<not> HasPrefix (Header_Get (Header r) ''Authorization'') ''Bearer ''
            \<or> Header_Get (Header r) ''Authorization'' = ''Bearer ''
            \<or> isl (ValidateToken lib (jwtManager m) now
                      (TrimPrefix (Header_Get (Header r) ''Authorization'') ''Bearer '')))
       \<longrightarrow> (\<exists>msg \<in> set [''Invalid or missing authorization token'', ''Invalid or expired token''].
              Authenticate lib now m next w r =
                Some (Returned
                  (w\<lparr>RespHeader := (RespHeader w)(''Content-Type'' \<mapsto> [''application/json'']),
                     wroteHeader := True, status := 401,
                     body := body w @ ''{"error":{"code":401,"message":"'' @ msg @ ''"}}''\<rparr>))))\<close>
proof (intro conjI impI)
  show "shouldSkipAuth path method \<longleftrightarrow>
       (path, method) \<in> set [(''/health'', ''GET''), (''/metrics'', ''GET''),
                              (''/api/v1/auth/login'', ''POST''),
                              (''/api/v1/auth/register'', ''POST''),
                              (''/api/v1/auth/refresh'', ''POST'')]
       \<or> method = ''OPTIONS''"
    by (rule shouldSkipAuth_iff)
next
  assume "shouldSkipAuth (URL_Path r) (Method r)"
  then show "Authenticate lib now m next w r = next w r"
    by (simp add: Authenticate_def)
next
  let ?h = "Header_Get (Header r) ''Authorization''"
  let ?resp = \<open>\<lambda>msg. Some (Returned
                  (w\<lparr>RespHeader := (RespHeader w)(''Content-Type'' \<mapsto> [''application/json'']),
                     wroteHeader := True, status := 401,
                     body := body w @ ''{"error":{"code":401,"message":"'' @ msg @ ''"}}''\<rparr>))\<close>
  assume a: "\<not> shouldSkipAuth (URL_Path r) (Method r) \<and> \<not> wroteHeader w
        \<and> (Header r ''Authorization'' = None
            \<or> \<not> HasPrefix ?h ''Bearer ''
            \<or> ?h = ''Bearer ''
            \<or> isl (ValidateToken lib (jwtManager m) now (TrimPrefix ?h ''Bearer '')))"
  then have ns: "\<not> shouldSkipAuth (URL_Path r) (Method r)" and fresh: "\<not> wroteHeader w"
    by simp_all
  have "Authenticate lib now m next w r = ?resp ''Invalid or missing authorization token''
      \<or> Authenticate lib now m next w r = ?resp ''Invalid or expired token''"
  proof (cases "extractToken r")
    case (Inl err)
    then have "Authenticate lib now m next w r = ?resp ''Invalid or missing authorization token''"
      using ns by (simp add: Authenticate_def Logger_WithError_def sendErrorResponse_401 [OF fresh])
    then show ?thesis ..
  next
    case (Inr token)
    note e = extractToken_Inr [OF Inr]
    from a e have "isl (ValidateToken lib (jwtManager m) now token)"
      using Header_Get_missing [of "Header r" "''Authorization''"] by metis
    then obtain err where "ValidateToken lib (jwtManager m) now token = Inl err"
      by (cases "ValidateToken lib (jwtManager m) now token") simp_all
    then have "Authenticate lib now m next w r = ?resp ''Invalid or expired token''"
      using ns Inr
      by (simp add: Authenticate_def Logger_WithError_def sendErrorResponse_401 [OF fresh])
    then show ?thesis ..
  qed
  then show \<open>\<exists>msg \<in> set [''Invalid or missing authorization token'', ''Invalid or expired token''].
              Authenticate lib now m next w r =
                Some (Returned
                  (w\<lparr>RespHeader := (RespHeader w)(''Content-Type'' \<mapsto> [''application/json'']),
                     wroteHeader := True, status := 401,
                     body := body w @ ''{"error":{"code":401,"message":"'' @ msg @ ''"}}''\<rparr>))\<close>
    by (simp only: list.set bex_simps insert_iff) blast
qed

text \<open>
  A health check is passed through; a request for expenses without a header and one with
  a token whose tag was swapped to \<^verbatim>\<open>none\<close> are answered with 401.
\<close>

theorem Authenticate_bypass_or_401_witness:
  \<open>shouldSkipAuth (URL_Path (bare_request ''GET'' ''/health''))
       (Method (bare_request ''GET'' ''/health''))
   \<and> Authenticate example_codec 1700003600000000000 example_middleware ok_handler new_writer
        (bare_request ''GET'' ''/health'')
       = ok_handler new_writer (bare_request ''GET'' ''/health'')
   \<and> \<not> shouldSkipAuth (URL_Path (bare_request ''GET'' ''/api/v1/expenses''))
          (Method (bare_request ''GET'' ''/api/v1/expenses''))
   \<and> \<not> wroteHeader new_writer
   \<and> Header (bare_request ''GET'' ''/api/v1/expenses'') ''Authorization'' = None
   \<and> Authenticate example_codec 1700003600000000000 example_middleware ok_handler new_writer
        (bare_request ''GET'' ''/api/v1/expenses'')
       = Some (Returned
           \<lparr>RespHeader = [''Content-Type'' \<mapsto> [''application/json'']],
            wroteHeader = True, status = 401,
            body = ''{"error":{"code":401,"message":"Invalid or missing authorization token"}}''\<rparr>)\<close>
proof -
  have h1: "shouldSkipAuth (URL_Path (bare_request ''GET'' ''/health''))
       (Method (bare_request ''GET'' ''/health''))"
    by (simp add: shouldSkipAuth_def skipPaths_def bare_request_def)
  have h2: "\<not> shouldSkipAuth (URL_Path (bare_request ''GET'' ''/api/v1/expenses''))
          (Method (bare_request ''GET'' ''/api/v1/expenses''))"
    by (simp add: shouldSkipAuth_def skipPaths_def bare_request_def)
  have h3: "\<not> wroteHeader new_writer"
    by (simp add: new_writer_def)
  have h4: "Header (bare_request ''GET'' ''/api/v1/expenses'') ''Authorization'' = None"
    by (simp add: bare_request_def)
  have e: "extractToken (bare_request ''GET'' ''/api/v1/expenses'')
      = Inl (Error ''authorization header is required'')"
    by (simp add: extractToken_def bare_request_def Header_Get_def)
  have a: "Authenticate example_codec 1700003600000000000 example_middleware ok_handler new_writer
        (bare_request ''GET'' ''/api/v1/expenses'')
       = Some (Returned (sendErrorResponse new_writer 401
                 ''Invalid or missing authorization token''))"
    using h2 by (simp add: Authenticate_def e Logger_WithError_def)
  have s: \<open>sendErrorResponse new_writer 401 ''Invalid or missing authorization token''
       = \<lparr>RespHeader = [''Content-Type'' \<mapsto> [''application/json'']],
          wroteHeader = True, status = 401,
          body = ''{"error":{"code":401,"message":"Invalid or missing authorization token"}}''\<rparr>\<close>
    unfolding sendErrorResponse_401 [OF h3] by (simp add: new_writer_def)
  have r: \<open>Authenticate example_codec 1700003600000000000 example_middleware ok_handler
        new_writer (bare_request ''GET'' ''/api/v1/expenses'')
       = Some (Returned
           \<lparr>RespHeader = [''Content-Type'' \<mapsto> [''application/json'']],
            wroteHeader = True, status = 401,
            body = ''{"error":{"code":401,"message":"Invalid or missing authorization token"}}''\<rparr>)\<close>
    unfolding a s ..
  show ?thesis
    using h1 h2 h3 h4 r
      Authenticate_bypass_or_401 [of "''/health''" "''GET''" "bare_request ''GET'' ''/health''"
        example_codec 1700003600000000000 example_middleware ok_handler new_writer]
    by blast
qed

text \<open>
  C8: what the code does where the claim expects the admin guard to answer 403. For a
  request off the bypass list with a valid token, \<open>Authenticate\<close> followed by \<open>RequireAdmin\<close>
  never returns: the context gets the role \<^verbatim>\<open>user\<close>, but the log call that follows does not
  come back. The guard alone, run on the context \<open>Authenticate\<close> builds, does not return
  either: it logs through \<open>WithFields\<close> before it would write the 403.
\<close>

theorem admin_guard_never_answers:
  assumes "\<not> shouldSkipAuth (URL_Path r) (Method r)"
    and "extractToken r = Inr tok"
    and "ValidateToken lib (jwtManager m) now tok = Inr claims"
  shows "Authenticate lib now m (RequireAdmin m inner) w r = None
       \<and> attach_identity (Context r) claims ''user_role'' = Some (VString ''user'')
       \<and> RequireAdmin m inner w (r\<lparr>Context := attach_identity (Context r) claims\<rparr>) = None"
proof -
  have "RequireAdmin m inner w (r\<lparr>Context := attach_identity (Context r) claims\<rparr>) = None"
    unfolding RequireAdmin_def
    by (rule RequireRole_mismatch [where role = "''user''"]) (simp_all add: attach_identity_role)
  then show ?thesis
    using Authenticate_valid_token [OF assms] attach_identity_role by blast
qed

theorem admin_guard_never_answers_witness:
  "\<not> shouldSkipAuth (URL_Path (example_request ''/api/v1/users/42/expenses'' example_token))
        (Method (example_request ''/api/v1/users/42/expenses'' example_token))
   \<and> extractToken (example_request ''/api/v1/users/42/expenses'' example_token)
       = Inr example_token
   \<and> ValidateToken example_codec (jwtManager example_middleware) 1700003600000000000
        example_token = Inr example_claims
   \<and> Authenticate example_codec 1700003600000000000 example_middleware
        (RequireAdmin example_middleware ok_handler) new_writer
        (example_request ''/api/v1/users/42/expenses'' example_token) = None"
proof -
  have v: "ValidateToken example_codec (jwtManager example_middleware) 1700003600000000000
        example_token = Inr example_claims"
    using example_token_valid by (simp add: example_middleware_def)
  show ?thesis
    using admin_guard_never_answers [OF example_request_not_skipped example_request_token v]
      example_request_not_skipped example_request_token v
    by blast
qed

text \<open>
  C1: what the code does where the claim expects a comparison of strings. When the path
  has a segment \<^verbatim>\<open>users\<close> followed by another segment, \<open>RequireUser\<close> run on the context
  that \<open>Authenticate\<close> builds panics: the user id was stored as a UUID and is asserted to be
  a string. Had the id been stored as a string, a matching segment would pass the request
  on, and a differing one would end in the log call that never returns, before any 403.
\<close>

theorem RequireUser_panics_or_hangs:
  assumes "segment_after_users (Split (URL_Path r) (CHR ''/'')) = Some seg"
  shows "RequireUser m next w (r\<lparr>Context := attach_identity (Context r) claims\<rparr>)
           = Some (Panicked ''interface conversion: interface {} is uuid.UUID, not string'')
       \<and> (seg \<noteq> uid \<longrightarrow>
            RequireUser m next w (r\<lparr>Context := (Context r)(''user_id'' \<mapsto> VString uid)\<rparr>) = None)
       \<and> (seg = uid \<longrightarrow>
            RequireUser m next w (r\<lparr>Context := (Context r)(''user_id'' \<mapsto> VString uid)\<rparr>)
              = next w (r\<lparr>Context := (Context r)(''user_id'' \<mapsto> VString uid)\<rparr>))"
  using assms
  by (simp add: RequireUser_def attach_identity_user_id RequireUser_loop_string
        RequireUser_loop_uuid)

theorem RequireUser_panics_or_hangs_witness:
  "segment_after_users
       (Split (URL_Path (example_request ''/api/v1/users/42/expenses'' example_token)) (CHR ''/''))
     = Some ''42''
   \<and> RequireUser example_middleware ok_handler new_writer
        (example_request ''/api/v1/users/42/expenses'' example_token
           \<lparr>Context := attach_identity Map.empty example_claims\<rparr>)
       = Some (Panicked ''interface conversion: interface {} is uuid.UUID, not string'')
   \<and> RequireUser example_middleware ok_handler new_writer
        (example_request ''/api/v1/users/42/expenses'' example_token
           \<lparr>Context := [''user_id'' \<mapsto> VString ''7'']\<rparr>) = None
   \<and> RequireUser example_middleware ok_handler new_writer
        (example_request ''/api/v1/users/42/expenses'' example_token
           \<lparr>Context := [''user_id'' \<mapsto> VString ''42'']\<rparr>)
       = Some (Returned (new_writer\<lparr>wroteHeader := True, status := 200, body := ''ok''\<rparr>))"
proof -
  have h: "segment_after_users
       (Split (URL_Path (example_request ''/api/v1/users/42/expenses'' example_token)) (CHR ''/''))
     = Some ''42''"
    by (simp add: example_request_def)
  show ?thesis
    using h
      RequireUser_panics_or_hangs [OF h, of example_middleware ok_handler new_writer
        example_claims "''7''"]
      RequireUser_panics_or_hangs [OF h, of example_middleware ok_handler new_writer
        example_claims "''42''"]
    by (simp add: example_request_def ok_handler_def Write_def WriteHeader_def new_writer_def)
qed

end
